theory Spec2Isabelle
  imports Main
begin

section \<open>The environment module of the coffee shop front end\<close>

text \<open>
  The source file \<^verbatim>\<open>frontend/src/environments/environment.ts\<close> holds one statement,
  \<^verbatim>\<open>export const environment = { ... }\<close>, whose right-hand side is an object literal
  built from boolean literals, string literals and one nested object literal. An
  earlier version of the same record is kept in the file as a comment.

  A JavaScript value of the kind the literal uses is a boolean, a string or an object,
  and an object is its list of properties in the order the literal writes them.
\<close>

datatype jsval =
  JBool bool
| JStr string
| JObj "(string \<times> jsval) list"

text \<open>The exported record, lines 21 to 30 of the source.\<close>

definition environment :: jsval where
  "environment = JObj
     [(''production'', JBool False),
      (''apiServerUrl'', JStr ''http://127.0.0.1:5000''),
      (''auth0'', JObj
         [(''url'', JStr ''dev-0occ77jb''),
          (''audience'', JStr ''coffee_shop''),
          (''clientId'', JStr ''bfK0CU5bv2J5GzzpkrWLWkfJOfmR6TdX''),
          (''callbackURL'', JStr ''http://localhost:8100'')])]"

text \<open>The record of the commented-out variant, lines 4 to 13 of the source.\<close>

definition environment_commented :: jsval where
  "environment_commented = JObj
     [(''production'', JBool False),
      (''apiServerUrl'', JStr ''http://127.0.0.1:5000''),
      (''auth0'', JObj
         [(''url'', JStr ''fsnd-joel''),
          (''audience'', JStr ''coffee_api''),
          (''clientId'', JStr ''Q3OOJUkbDk1guLXFPqFMtmuZVqm9EAPq''),
          (''callbackURL'', JStr ''http://localhost:8100'')])]"

subsection \<open>Reading properties\<close>

text \<open>
  \<^verbatim>\<open>v.k\<close>: the property \<open>k\<close> of an object, where a key written twice in a literal keeps
  its last value; a boolean or a string has none of the properties used here
  (JavaScript gives \<^verbatim>\<open>undefined\<close>, the model \<open>None\<close>).
\<close>

fun member :: "string \<Rightarrow> jsval \<Rightarrow> jsval option" where
  "member k (JObj kvs) = map_of (rev kvs) k"
| "member k (JBool b) = None"
| "member k (JStr s) = None"

text \<open>\<^verbatim>\<open>v.k1.k2...\<close>: a chain of property reads; reading below \<^verbatim>\<open>undefined\<close> fails.\<close>

fun get :: "string list \<Rightarrow> jsval \<Rightarrow> jsval option" where
  "get [] v = Some v"
| "get (k # ks) v = (case member k v of None \<Rightarrow> None | Some w \<Rightarrow> get ks w)"

fun as_string :: "jsval option \<Rightarrow> string option" where
  "as_string (Some (JStr s)) = Some s"
| "as_string _ = None"

fun as_bool :: "jsval option \<Rightarrow> bool option" where
  "as_bool (Some (JBool b)) = Some b"
| "as_bool _ = None"

text \<open>The six reads a consumer of the module can make.\<close>

definition production :: "jsval \<Rightarrow> bool option" where
  "production e = as_bool (get [''production''] e)"

definition apiServerUrl :: "jsval \<Rightarrow> string option" where
  "apiServerUrl e = as_string (get [''apiServerUrl''] e)"

definition auth0_url :: "jsval \<Rightarrow> string option" where
  "auth0_url e = as_string (get [''auth0'', ''url''] e)"

definition auth0_audience :: "jsval \<Rightarrow> string option" where
  "auth0_audience e = as_string (get [''auth0'', ''audience''] e)"

definition auth0_clientId :: "jsval \<Rightarrow> string option" where
  "auth0_clientId e = as_string (get [''auth0'', ''clientId''] e)"

definition auth0_callbackURL :: "jsval \<Rightarrow> string option" where
  "auth0_callbackURL e = as_string (get [''auth0'', ''callbackURL''] e)"

subsection \<open>Shape\<close>

text \<open>
  The shape of a value is what TypeScript infers for the literal: \<^verbatim>\<open>boolean\<close>,
  \<^verbatim>\<open>string\<close>, or an object type listing each property with its own shape.
\<close>

datatype jstype =
  TBoolean
| TString
| TObject "(string \<times> jstype) list"

fun shape :: "jsval \<Rightarrow> jstype" where
  "shape (JBool b) = TBoolean"
| "shape (JStr s) = TString"
| "shape (JObj kvs) = TObject (map (\<lambda>(k, v). (k, shape v)) kvs)"

text \<open>
  The fields of a value that hold data: the path to every boolean or string in it,
  with its type, in the order of the literal. An object is not a data field itself.
\<close>

fun leaves :: "string list \<Rightarrow> jsval \<Rightarrow> (string list \<times> jstype) list" where
  "leaves p (JBool b) = [(p, TBoolean)]"
| "leaves p (JStr s) = [(p, TString)]"
| "leaves p (JObj kvs) = concat (map (\<lambda>(k, v). leaves (p @ [k]) v) kvs)"

subsection \<open>Evaluating the initialiser\<close>

text \<open>
  The right-hand side of the declaration as syntax. An expression of the language can
  also name an identifier or call a function, which is how an initialiser would
  depend on its surroundings; the one in the file (lines 21 to 30) is built from
  literals only.
\<close>

datatype expr =
  EBool bool
| EStr string
| EObj "(string \<times> expr) list"
| EIdent string
| ECall string "expr list"

definition environment_expr :: expr where
  "environment_expr = EObj
     [(''production'', EBool False),
      (''apiServerUrl'', EStr ''http://127.0.0.1:5000''),
      (''auth0'', EObj
         [(''url'', EStr ''dev-0occ77jb''),
          (''audience'', EStr ''coffee_shop''),
          (''clientId'', EStr ''bfK0CU5bv2J5GzzpkrWLWkfJOfmR6TdX''),
          (''callbackURL'', EStr ''http://localhost:8100'')])]"

datatype error = TypeError | ReferenceError

text \<open>
  Evaluation in an ambient state \<open>s\<close> of any type: \<open>L\<close> resolves an identifier in it
  (an unbound one is a \<^verbatim>\<open>ReferenceError\<close>), \<open>C\<close> runs a call, which may fail and may
  change the state. Properties and arguments are evaluated left to right, each in
  the state the one before left.
\<close>

fun eval ::
    "('s \<Rightarrow> string \<Rightarrow> jsval option) \<Rightarrow> (string \<Rightarrow> jsval list \<Rightarrow> 's \<Rightarrow> error + jsval \<times> 's)
       \<Rightarrow> expr \<Rightarrow> 's \<Rightarrow> error + jsval \<times> 's"
  and eval_props ::
    "('s \<Rightarrow> string \<Rightarrow> jsval option) \<Rightarrow> (string \<Rightarrow> jsval list \<Rightarrow> 's \<Rightarrow> error + jsval \<times> 's)
       \<Rightarrow> (string \<times> expr) list \<Rightarrow> 's \<Rightarrow> error + (string \<times> jsval) list \<times> 's"
  and eval_args ::
    "('s \<Rightarrow> string \<Rightarrow> jsval option) \<Rightarrow> (string \<Rightarrow> jsval list \<Rightarrow> 's \<Rightarrow> error + jsval \<times> 's)
       \<Rightarrow> expr list \<Rightarrow> 's \<Rightarrow> error + jsval list \<times> 's"
where
  "eval L C (EBool b) s = Inr (JBool b, s)"
| "eval L C (EStr x) s = Inr (JStr x, s)"
| "eval L C (EObj kes) s =
     (case eval_props L C kes s of
        Inl er \<Rightarrow> Inl er
      | Inr (kvs, s') \<Rightarrow> Inr (JObj kvs, s'))"
| "eval L C (EIdent x) s =
     (case L s x of None \<Rightarrow> Inl ReferenceError | Some v \<Rightarrow> Inr (v, s))"
| "eval L C (ECall f args) s =
     (case eval_args L C args s of
        Inl er \<Rightarrow> Inl er
      | Inr (vs, s') \<Rightarrow> C f vs s')"
| "eval_props L C [] s = Inr ([], s)"
| "eval_props L C ((k, e) # kes) s =
     (case eval L C e s of
        Inl er \<Rightarrow> Inl er
      | Inr (v, s1) \<Rightarrow>
          (case eval_props L C kes s1 of
             Inl er \<Rightarrow> Inl er
           | Inr (kvs, s2) \<Rightarrow> Inr ((k, v) # kvs, s2)))"
| "eval_args L C [] s = Inr ([], s)"
| "eval_args L C (e # es) s =
     (case eval L C e s of
        Inl er \<Rightarrow> Inl er
      | Inr (v, s1) \<Rightarrow>
          (case eval_args L C es s1 of
             Inl er \<Rightarrow> Inl er
           | Inr (vs, s2) \<Rightarrow> Inr (v # vs, s2)))"

text \<open>Evaluating the module is evaluating its one initialiser.\<close>

definition evaluate_module ::
    "('s \<Rightarrow> string \<Rightarrow> jsval option) \<Rightarrow> (string \<Rightarrow> jsval list \<Rightarrow> 's \<Rightarrow> error + jsval \<times> 's)
       \<Rightarrow> 's \<Rightarrow> error + jsval \<times> 's" where
  "evaluate_module L C s = eval L C environment_expr s"

subsection \<open>The exported object in the heap\<close>

text \<open>
  An object literal creates an object in the heap and its value is a reference to it;
  the nested literal creates a second object, which the outer one refers to, so that
  \<^verbatim>\<open>environment.auth0\<close> is an alias any importer can hold. An object literal creates an
  ordinary object: the file has no \<^verbatim>\<open>Object.freeze\<close>, no \<^verbatim>\<open>readonly\<close> and no
  \<^verbatim>\<open>as const\<close>, so every object it creates is unfrozen.
\<close>

datatype hval = HBool bool | HStr string | HRef nat

record obj =
  props :: "string \<rightharpoonup> hval"
  frozen :: bool

record mstate =
  cells :: "nat \<rightharpoonup> obj"
  next_addr :: nat
  binding :: "hval option"


text \<open>
  Creating a value in the heap. The properties of a literal are defined in order (a
  key written twice keeps its last value), then the object is allocated.
\<close>

fun alloc :: "jsval \<Rightarrow> mstate \<Rightarrow> hval \<times> mstate"
  and alloc_props ::
    "(string \<times> jsval) list \<Rightarrow> (string \<rightharpoonup> hval) \<Rightarrow> mstate \<Rightarrow> (string \<rightharpoonup> hval) \<times> mstate"
where
  "alloc (JBool b) st = (HBool b, st)"
| "alloc (JStr s) st = (HStr s, st)"
| "alloc (JObj kvs) st =
     (case alloc_props kvs Map.empty st of
        (ps, st1) \<Rightarrow>
          (HRef (next_addr st1),
           st1\<lparr>cells := (cells st1)(next_addr st1 \<mapsto> \<lparr>props = ps, frozen = False\<rparr>),
               next_addr := next_addr st1 + 1\<rparr>))"
| "alloc_props [] acc st = (acc, st)"
| "alloc_props ((k, v) # kvs) acc st =
     (case alloc v st of (x, st1) \<Rightarrow> alloc_props kvs (acc(k \<mapsto> x)) st1)"









subsection \<open>Strings and URLs\<close>

definition is_digit :: "char \<Rightarrow> bool" where
  "is_digit c = (let n = of_char c :: nat in 48 \<le> n \<and> n \<le> 57)"

definition is_alpha :: "char \<Rightarrow> bool" where
  "is_alpha c = (let n = of_char c :: nat in (65 \<le> n \<and> n \<le> 90) \<or> (97 \<le> n \<and> n \<le> 122))"

definition is_alnum :: "char \<Rightarrow> bool" where
  "is_alnum c = (is_alpha c \<or> is_digit c)"

text \<open>The strings held by a value, in the order of the literal.\<close>

fun string_values :: "jsval \<Rightarrow> string list" where
  "string_values (JBool b) = []"
| "string_values (JStr s) = [s]"
| "string_values (JObj kvs) = concat (map (\<lambda>(k, v). string_values v) kvs)"

text \<open>
  The module parses nothing. To state that a string is a URL, the grammar of an
  absolute URL with an authority is written out, after RFC 3986:
  \<^verbatim>\<open>scheme "://" host [ ":" port ] [ "/" ... ]\<close>, where the scheme is a letter followed by
  letters, digits, \<^verbatim>\<open>+\<close>, \<^verbatim>\<open>-\<close> and \<^verbatim>\<open>.\<close>, the host is a non-empty run of letters, digits,
  \<^verbatim>\<open>-\<close> and \<^verbatim>\<open>.\<close> (a registered name or a dotted IPv4 address), and the port is a
  non-empty decimal number up to 65535.
\<close>

record url =
  scheme :: string
  host :: string
  port :: "nat option"
  path :: string

definition is_scheme_char :: "char \<Rightarrow> bool" where
  "is_scheme_char c = (is_alnum c \<or> c = CHR ''+'' \<or> c = CHR ''-'' \<or> c = CHR ''.'')"

definition is_host_char :: "char \<Rightarrow> bool" where
  "is_host_char c = (is_alnum c \<or> c = CHR ''-'' \<or> c = CHR ''.'')"

definition decimal :: "string \<Rightarrow> nat" where
  "decimal ds = foldl (\<lambda>n c. 10 * n + (of_char c - 48)) 0 ds"

definition parse_path :: "string \<Rightarrow> string \<Rightarrow> nat option \<Rightarrow> string \<Rightarrow> url option" where
  "parse_path sch h prt r =
     (case r of
        [] \<Rightarrow> Some \<lparr>scheme = sch, host = h, port = prt, path = []\<rparr>
      | c # cs \<Rightarrow>
          if c = CHR ''/'' then Some \<lparr>scheme = sch, host = h, port = prt, path = r\<rparr>
          else None)"

definition parse_port :: "string \<Rightarrow> string \<Rightarrow> string \<Rightarrow> url option" where
  "parse_port sch h r =
     (let ds = takeWhile is_digit r in
      if ds = [] then None
      else if 65535 < decimal ds then None
      else parse_path sch h (Some (decimal ds)) (dropWhile is_digit r))"

definition parse_authority :: "string \<Rightarrow> string \<Rightarrow> url option" where
  "parse_authority sch r =
     (let h = takeWhile is_host_char r in
      if h = [] then None
      else
        (case dropWhile is_host_char r of
           [] \<Rightarrow> parse_path sch h None []
         | c # cs \<Rightarrow>
             if c = CHR '':'' then parse_port sch h cs
             else parse_path sch h None (c # cs)))"

definition parse_url :: "string \<Rightarrow> url option" where
  "parse_url s =
     (case takeWhile is_scheme_char s of
        [] \<Rightarrow> None
      | c # cs \<Rightarrow>
          if is_alpha c then
            (let r = dropWhile is_scheme_char s in
             if take 3 r = ''://'' then parse_authority (c # cs) (drop 3 r) else None)
          else None)"

definition valid_url :: "string \<Rightarrow> bool" where
  "valid_url s = (case parse_url s of None \<Rightarrow> False | Some u \<Rightarrow> True)"

section \<open>Properties\<close>

text \<open>
  C1. The exported record has exactly six data fields: \<open>production\<close>, a boolean, and the
  strings \<open>apiServerUrl\<close>, \<open>auth0.url\<close>, \<open>auth0.audience\<close>, \<open>auth0.clientId\<close> and
  \<open>auth0.callbackURL\<close>, the last four nested in the sub-object \<open>auth0\<close>; it has no
  other field.
\<close>

theorem environment_six_fields:
  "leaves [] environment =
     [([''production''], TBoolean),
      ([''apiServerUrl''], TString),
      ([''auth0'', ''url''], TString),
      ([''auth0'', ''audience''], TString),
      ([''auth0'', ''clientId''], TString),
      ([''auth0'', ''callbackURL''], TString)]
   \<and> shape environment =
     TObject [(''production'', TBoolean),
              (''apiServerUrl'', TString),
              (''auth0'', TObject [(''url'', TString),
                                   (''audience'', TString),
                                   (''clientId'', TString),
                                   (''callbackURL'', TString)])]"
  by (simp add: environment_def)

lemmas char_class_defs =
  is_digit_def is_alpha_def is_alnum_def is_scheme_char_def is_host_char_def

lemmas parse_defs =
  parse_url_def parse_authority_def parse_port_def parse_path_def decimal_def

lemmas field_defs =
  production_def apiServerUrl_def auth0_url_def auth0_audience_def auth0_clientId_def
  auth0_callbackURL_def









text \<open>
  C3. \<open>apiServerUrl\<close> and \<open>auth0.callbackURL\<close> of the exported record are syntactically
  valid URLs: each parses as a scheme, a host and an optional port.
\<close>

theorem environment_urls_valid:
  "map_option valid_url (apiServerUrl environment) = Some True
   \<and> map_option valid_url (auth0_callbackURL environment) = Some True"
  by (simp add: environment_def field_defs valid_url_def parse_defs char_class_defs)

text \<open>
  The two variants of the record written in the file, the commented-out one and the
  exported one, have the same shape: the same field names in the same nesting with
  the same types, and so the same typed field paths.
\<close>

lemma variants_same_shape:
  "shape environment_commented = shape environment
   \<and> leaves [] environment_commented = leaves [] environment"
  by (simp add: environment_def environment_commented_def)

text \<open>
  C6. Evaluating the module is pure and deterministic. The initialiser names no
  identifier and calls nothing, so whatever the ambient state, the way identifiers
  resolve in it and what calls would do, the evaluation does not fail, leaves the
  ambient state as it was and yields the record of the literal; any two evaluations
  yield equal records, equal at every field path.
\<close>

theorem evaluate_module_deterministic:
  "evaluate_module L C s = Inr (environment, s)
   \<and> map_sum id fst (evaluate_module L C s) = map_sum id fst (evaluate_module L' C' s')
   \<and> map_sum id (get p \<circ> fst) (evaluate_module L C s)
       = map_sum id (get p \<circ> fst) (evaluate_module L' C' s')"
  by (simp add: evaluate_module_def environment_expr_def environment_def)

text \<open>
  C7. The exported record is the development variant: \<open>production\<close> is false,
  \<open>apiServerUrl\<close> has host \<open>127.0.0.1\<close> and port 5000, and \<open>auth0.callbackURL\<close> has host
  \<open>localhost\<close> and port 8100.
\<close>

theorem environment_is_development:
  "production environment = Some False
   \<and> Option.bind (apiServerUrl environment) parse_url
       = Some \<lparr>scheme = ''http'', host = ''127.0.0.1'', port = Some 5000, path = []\<rparr>
   \<and> Option.bind (auth0_callbackURL environment) parse_url
       = Some \<lparr>scheme = ''http'', host = ''localhost'', port = Some 8100, path = []\<rparr>"
  by (simp add: environment_def field_defs parse_defs char_class_defs)

text \<open>
  C8. \<open>auth0.url\<close> is not a URL: its value is \<open>dev-0occ77jb\<close>, which does not parse as
  a URL and contains no colon (so no scheme), no dot and no slash.
\<close>

theorem auth0_url_is_bare_prefix:
  "auth0_url environment = Some ''dev-0occ77jb''
   \<and> Option.bind (auth0_url environment) parse_url = None
   \<and> map_option (\<lambda>s. set s \<inter> {CHR '':'', CHR ''.'', CHR ''/''}) (auth0_url environment)
       = Some {}"
  by (simp add: environment_def field_defs parse_defs char_class_defs)

text \<open>
  C9. Every string of the exported record is non-empty; there are five of them.
  \<open>auth0.clientId\<close> has exactly 32 characters, each an ASCII letter or digit.
\<close>

theorem environment_strings_nonempty:
  "length (string_values environment) = 5
   \<and> [] \<notin> set (string_values environment)
   \<and> map_option length (auth0_clientId environment) = Some 32
   \<and> map_option (list_all is_alnum) (auth0_clientId environment) = Some True"
  by (simp add: environment_def field_defs char_class_defs)

end
